theory Spec2Isabelle
  imports Complex_Main
begin

section \<open>Numbers\<close>

text \<open>
  The simulator of \<^verbatim>\<open>app.js\<close> computes with JavaScript numbers. They are read here as
  real numbers: \<open>+\<close>, \<open>-\<close>, \<open>*\<close>, \<open>Math.sin\<close>, \<open>Math.cos\<close>, \<open>Math.atan\<close> and
  \<open>Math.sqrt\<close> (on a non-negative argument) are the real operations, without rounding.
  Rounding can turn a number into \<open>NaN\<close> at one place of the source, which the reals
  do not show: the second square root of \<^verbatim>\<open>calculateDistance\<close>, see the section on
  GeoDistance below.
  A division is the one operation of the source whose result can leave the reals: a zero
  divisor gives \<open>NaN\<close> or an infinity. Where the source divides by a variable without
  testing it first, the model divides with \<open>js_div\<close>, and \<open>None\<close> stands for such a
  non-finite result; where the source tests the divisor (\<open>horizontalDist > 0\<close>,
  \<open>totalTime > 0\<close>) or divides by a constant, the model divides with \<open>/\<close>.
\<close>

definition js_div :: "real \<Rightarrow> real \<Rightarrow> real option" where
  "js_div a b = (if b = 0 then None else Some (a / b))"

text \<open>
  \<open>Math.atan2(y, x)\<close>, the angle of the point \<open>(x, y)\<close> in \<open>(-\<pi>, \<pi>]\<close>; \<open>0\<close> at
  the origin.
\<close>

definition js_atan2 :: "real \<Rightarrow> real \<Rightarrow> real" where
  "js_atan2 y x =
     (if 0 < x then arctan (y / x)
      else if x < 0 then (if 0 \<le> y then arctan (y / x) + pi else arctan (y / x) - pi)
      else if 0 < y then pi / 2
      else if y < 0 then - pi / 2
      else 0)"

section \<open>Constants\<close>

text \<open>
  \<^verbatim>\<open>const g = 9.81; const rho = 1.225; const Crr = 0.004;\<close>
  The source's \<open>g\<close> is named \<open>g_gravity\<close> here, to leave \<open>g\<close> free as a variable.
\<close>

definition g_gravity :: real where
  "g_gravity = 9.81"

definition rho :: real where
  "rho = 1.225"

definition Crr :: real where
  "Crr = 0.004"

section \<open>SpeedSolver\<close>

text \<open>\<^verbatim>\<open>function calculatePowerNeeded(speed_ms, grade, mass, CdA)\<close>\<close>

definition calculatePowerNeeded :: "real \<Rightarrow> real \<Rightarrow> real \<Rightarrow> real \<Rightarrow> real" where
  "calculatePowerNeeded speed_ms grade mass CdA =
     (let theta = arctan grade;
          F_gravity = mass * g_gravity * sin theta;
          F_rolling = mass * g_gravity * cos theta * Crr;
          F_air = 0.5 * rho * CdA * speed_ms * speed_ms;
          totalForce = F_gravity + F_rolling + F_air;
          power = totalForce * speed_ms
      in power)"

text \<open>
  The \<^verbatim>\<open>while\<close> loop of \<^verbatim>\<open>calculateSpeed\<close>, on its three variables
  \<open>vMin\<close>, \<open>vMax\<close> and \<open>iterations\<close>; it returns their final values.
\<close>

definition tolerance :: real where
  "tolerance = 0.001"

definition maxIterations :: nat where
  "maxIterations = 100"

function bisect :: "real \<Rightarrow> real \<Rightarrow> real \<Rightarrow> real \<Rightarrow> real \<Rightarrow> real \<Rightarrow> nat \<Rightarrow> real \<times> real \<times> nat" where
  "bisect grade mass CdA Pmax vMin vMax iterations =
     (if vMax - vMin > tolerance \<and> iterations < maxIterations then
        (let vMid = (vMin + vMax) / 2;
             powerNeeded = calculatePowerNeeded vMid grade mass CdA
         in if powerNeeded < Pmax
            then bisect grade mass CdA Pmax vMid vMax (iterations + 1)
            else bisect grade mass CdA Pmax vMin vMid (iterations + 1))
      else (vMin, vMax, iterations))"
  by pat_completeness auto
termination
  by (relation "measure (\<lambda>(grade, mass, CdA, Pmax, vMin, vMax, iterations).
        maxIterations - iterations)") auto

declare bisect.simps [simp del]

text \<open>\<^verbatim>\<open>function calculateSpeed(grade, mass, CdA, Pmax, Vmax_ms)\<close>\<close>

definition calculateSpeed :: "real \<Rightarrow> real \<Rightarrow> real \<Rightarrow> real \<Rightarrow> real \<Rightarrow> real" where
  "calculateSpeed grade mass CdA Pmax Vmax_ms =
     (let powerAtVmax = calculatePowerNeeded Vmax_ms grade mass CdA
      in if powerAtVmax \<le> Pmax then Vmax_ms
         else (case bisect grade mass CdA Pmax 0.1 Vmax_ms 0 of
                 (vMin, vMax, iterations) \<Rightarrow> (vMin + vMax) / 2))"

section \<open>GeoDistance and SegmentBuilder\<close>

text \<open>A parsed track point \<^verbatim>\<open>{ lat, lon, ele }\<close>.\<close>

record point =
  lat :: real
  lon :: real
  ele :: real

text \<open>
  An element of \<^verbatim>\<open>segments\<close>; the fields \<^verbatim>\<open>distance\<close>, \<^verbatim>\<open>grade\<close>,
  \<^verbatim>\<open>elevation\<close>, \<^verbatim>\<open>cumulativeDistance\<close>, \<^verbatim>\<open>lat\<close>, \<^verbatim>\<open>lon\<close> carry the prefix
  \<open>seg_\<close>.
\<close>

record segment =
  seg_distance :: real
  seg_grade :: real
  seg_elevation :: real
  seg_cumulativeDistance :: real
  seg_lat :: real
  seg_lon :: real

text \<open>\<^verbatim>\<open>function calculateDistance(lat1, lon1, lat2, lon2)\<close>, the haversine formula.\<close>

definition calculateDistance :: "real \<Rightarrow> real \<Rightarrow> real \<Rightarrow> real \<Rightarrow> real" where
  "calculateDistance lat1 lon1 lat2 lon2 =
     (let R = 6371000;
          phi1 = lat1 * pi / 180;
          phi2 = lat2 * pi / 180;
          dphi = (lat2 - lat1) * pi / 180;
          dlambda = (lon2 - lon1) * pi / 180;
          a = sin (dphi / 2) * sin (dphi / 2) +
              cos phi1 * cos phi2 *
              sin (dlambda / 2) * sin (dlambda / 2);
          c = 2 * js_atan2 (sqrt a) (sqrt (1 - a))
      in R * c)"

text \<open>
  The body of the \<^verbatim>\<open>for\<close> loop of \<^verbatim>\<open>calculateSegmentData\<close> for the pair
  \<open>p1 = points[i - 1]\<close>, \<open>p2 = points[i]\<close>, given the running \<open>totalDistance\<close>: the
  segment that is pushed (its \<open>seg_cumulativeDistance\<close> is the new running total).
\<close>

definition segmentOf :: "real \<Rightarrow> point \<Rightarrow> point \<Rightarrow> segment" where
  "segmentOf totalDistance p1 p2 =
     (let horizontalDist = calculateDistance (lat p1) (lon p1) (lat p2) (lon p2);
          elevationChange = ele p2 - ele p1;
          distance = sqrt (horizontalDist * horizontalDist + elevationChange * elevationChange);
          grade = (if horizontalDist > 0 then elevationChange / horizontalDist else 0)
      in \<lparr> seg_distance = distance,
           seg_grade = grade,
           seg_elevation = ele p2,
           seg_cumulativeDistance = totalDistance + distance,
           seg_lat = lat p2,
           seg_lon = lon p2 \<rparr>)"

text \<open>The loop over \<open>i = 1, ..., points.length - 1\<close>: \<open>p1\<close> is the previous point.\<close>

fun segmentLoop :: "real \<Rightarrow> point \<Rightarrow> point list \<Rightarrow> segment list" where
  "segmentLoop totalDistance p1 [] = []"
| "segmentLoop totalDistance p1 (p2 # ps) =
     (let s = segmentOf totalDistance p1 p2
      in s # segmentLoop (seg_cumulativeDistance s) p2 ps)"

text \<open>\<^verbatim>\<open>function calculateSegmentData(points)\<close>\<close>

definition calculateSegmentData :: "point list \<Rightarrow> segment list" where
  "calculateSegmentData points =
     (case points of [] \<Rightarrow> [] | p # ps \<Rightarrow> segmentLoop 0 p ps)"

section \<open>RouteSimulator\<close>

text \<open>
  An element of \<^verbatim>\<open>simulationData\<close>, its fields prefixed with \<open>pt_\<close>. The first
  element is pushed without \<^verbatim>\<open>lat\<close> and \<^verbatim>\<open>lon\<close>.
\<close>

record sim_point =
  pt_distance :: real
  pt_elevation :: real
  pt_speed :: real
  pt_power :: real
  pt_time :: real
  pt_grade :: real
  pt_lat :: "real option"
  pt_lon :: "real option"
  pt_elevationGain :: real

text \<open>The variables that the main loop of \<^verbatim>\<open>runSimulation\<close> updates.\<close>

record sim_state =
  totalTime :: real
  simulationData :: "sim_point list"
  cumulativeElevationGain :: real
  previousElevation :: real

text \<open>
  One pass through the body of \<^verbatim>\<open>for (let i = 0; i < segments.length; i++)\<close>.
  \<open>None\<close>: the segment's time \<^verbatim>\<open>segment.distance / speed_ms\<close> is not finite.
\<close>

definition simulateSegment ::
  "real \<Rightarrow> real \<Rightarrow> real \<Rightarrow> real \<Rightarrow> segment \<Rightarrow> sim_state \<Rightarrow> sim_state option" where
  "simulateSegment mass CdA Pmax Vmax_ms segment st =
     (let speed_ms = calculateSpeed (seg_grade segment) mass CdA Pmax Vmax_ms;
          speed_kmh = speed_ms * 3.6
      in case js_div (seg_distance segment) speed_ms of
           None \<Rightarrow> None
         | Some time \<Rightarrow>
             (let totalTime' = totalTime st + time;
                  elevationChange = seg_elevation segment - previousElevation st;
                  gain' = (if elevationChange > 0
                           then cumulativeElevationGain st + elevationChange
                           else cumulativeElevationGain st);
                  power = (if speed_ms \<ge> Vmax_ms - 0.01
                           then max 0 (calculatePowerNeeded speed_ms (seg_grade segment) mass CdA)
                           else Pmax)
              in Some \<lparr> totalTime = totalTime',
                        simulationData = simulationData st @
                          [\<lparr> pt_distance = seg_cumulativeDistance segment,
                             pt_elevation = seg_elevation segment,
                             pt_speed = speed_kmh,
                             pt_power = power,
                             pt_time = totalTime',
                             pt_grade = seg_grade segment * 100,
                             pt_lat = Some (seg_lat segment),
                             pt_lon = Some (seg_lon segment),
                             pt_elevationGain = gain' \<rparr>],
                        cumulativeElevationGain = gain',
                        previousElevation = seg_elevation segment \<rparr>))"

fun simulateLoop ::
  "real \<Rightarrow> real \<Rightarrow> real \<Rightarrow> real \<Rightarrow> segment list \<Rightarrow> sim_state \<Rightarrow> sim_state option" where
  "simulateLoop mass CdA Pmax Vmax_ms [] st = Some st"
| "simulateLoop mass CdA Pmax Vmax_ms (segment # segments) st =
     (case simulateSegment mass CdA Pmax Vmax_ms segment st of
        None \<Rightarrow> None
      | Some st' \<Rightarrow> simulateLoop mass CdA Pmax Vmax_ms segments st')"

text \<open>
  The second loop of \<^verbatim>\<open>runSimulation\<close>,
  \<^verbatim>\<open>for (let i = 1; i < simulationData.length; i++)\<close>, from index \<open>i\<close> on.
\<close>

function routePowerLoop :: "sim_point list \<Rightarrow> nat \<Rightarrow> real \<Rightarrow> real" where
  "routePowerLoop simData i totalPower =
     (if i < length simData then
        (let timeDiff = pt_time (simData ! i) - pt_time (simData ! (i - 1))
         in routePowerLoop simData (i + 1) (totalPower + pt_power (simData ! i) * timeDiff))
      else totalPower)"
  by pat_completeness auto
termination
  by (relation "measure (\<lambda>(simData, i, totalPower). length simData - i)") auto

declare routePowerLoop.simps [simp del]

text \<open>
  What \<^verbatim>\<open>runSimulation\<close> hands to \<^verbatim>\<open>displayResults\<close>: the sequence and the route
  totals. \<open>r_avgSpeed\<close> and \<open>r_avgPower\<close> come from divisions by \<open>totalTime\<close> that the
  source does not guard.
\<close>

record route_result =
  r_data :: "sim_point list"
  r_totalTime :: real
  r_totalDistance :: real
  r_avgSpeed :: "real option"
  r_avgPower :: "real option"

text \<open>
  The ways in which \<^verbatim>\<open>runSimulation\<close> does not reach \<^verbatim>\<open>displayResults\<close> with
  real numbers: no route is loaded (\<^verbatim>\<open>!gpxData\<close>), the route has no segment (the
  alert \<open>Not enough data points to simulate\<close>), or a segment's time is not finite.
\<close>

datatype sim_error = NoRoute | NotEnoughData | NonFinite

text \<open>
  The loop variables of \<^verbatim>\<open>runSimulation\<close> before the main loop: \<open>totalTime = 0\<close>,
  the starting point pushed onto \<^verbatim>\<open>simulationData\<close>,
  \<open>cumulativeElevationGain = 0\<close> and \<open>previousElevation = gpxData.points[0].ele\<close>.
  It is used only after \<^verbatim>\<open>segments.length === 0\<close> has been excluded, so
  \<open>points ! 0\<close> exists.
\<close>

definition initialState :: "point list \<Rightarrow> sim_state" where
  "initialState points =
     \<lparr> totalTime = 0,
       simulationData =
         [\<lparr> pt_distance = 0,
            pt_elevation = ele (points ! 0),
            pt_speed = 0,
            pt_power = 0,
            pt_time = 0,
            pt_grade = 0,
            pt_lat = None,
            pt_lon = None,
            pt_elevationGain = 0 \<rparr>],
       cumulativeElevationGain = 0,
       previousElevation = ele (points ! 0) \<rparr>"

text \<open>
  \<^verbatim>\<open>function runSimulation()\<close>. The global \<^verbatim>\<open>gpxData\<close> (\<open>None\<close> for
  \<^verbatim>\<open>null\<close>, else its \<^verbatim>\<open>points\<close>) and the four numbers parsed from the inputs are
  its arguments.
\<close>

definition runSimulation ::
  "point list option \<Rightarrow> real \<Rightarrow> real \<Rightarrow> real \<Rightarrow> real \<Rightarrow> sim_error + route_result" where
  "runSimulation gpxData mass CdA Pmax Vmax_kmh =
     (case gpxData of
        None \<Rightarrow> Inl NoRoute
      | Some points \<Rightarrow>
          (let Vmax_ms = Vmax_kmh / 3.6;
               segments = calculateSegmentData points
           in if length segments = 0 then Inl NotEnoughData
              else
                (case simulateLoop mass CdA Pmax Vmax_ms segments (initialState points) of
                   None \<Rightarrow> Inl NonFinite
                 | Some st \<Rightarrow>
                     (let totalDistance =
                            seg_cumulativeDistance (segments ! (length segments - 1));
                          avgSpeed = map_option (\<lambda>q. q * 3.6)
                                       (js_div totalDistance (totalTime st));
                          totalPower = routePowerLoop (simulationData st) 1 0;
                          avgPower = js_div totalPower (totalTime st)
                      in Inr \<lparr> r_data = simulationData st,
                               r_totalTime = totalTime st,
                               r_totalDistance = totalDistance,
                               r_avgSpeed = avgSpeed,
                               r_avgPower = avgPower \<rparr>))))"

section \<open>RangeAggregator\<close>

text \<open>
  The loop \<^verbatim>\<open>for (let i = startIdx + 1; i <= endIdx; i++)\<close> of
  \<^verbatim>\<open>updateSummaryCards\<close>, from index \<open>i\<close> on.
\<close>

function rangePowerLoop :: "sim_point list \<Rightarrow> nat \<Rightarrow> nat \<Rightarrow> real \<Rightarrow> real" where
  "rangePowerLoop data i endIdx totalPower =
     (if i \<le> endIdx then
        (let timeDiff = pt_time (data ! i) - pt_time (data ! (i - 1))
         in rangePowerLoop data (i + 1) endIdx (totalPower + pt_power (data ! i) * timeDiff))
      else totalPower)"
  by pat_completeness auto
termination
  by (relation "measure (\<lambda>(data, i, endIdx, totalPower). Suc endIdx - i)") auto

declare rangePowerLoop.simps [simp del]

text \<open>The four numbers that \<^verbatim>\<open>updateSummaryCards\<close> computes and then formats.\<close>

record summary =
  s_totalTime :: real
  s_totalDistance :: real
  s_avgSpeed :: real
  s_avgPower :: real

datatype js_error = TypeError

text \<open>
  \<^verbatim>\<open>function updateSummaryCards(data, startIdx = 0, endIdx = null)\<close>, up to the four
  numbers (the rest writes them into the page). \<open>endIdx\<close> is \<open>None\<close> for \<^verbatim>\<open>null\<close>;
  the test \<^verbatim>\<open>!endIdx\<close> holds for \<^verbatim>\<open>null\<close> and for \<open>0\<close>. Reading \<^verbatim>\<open>.time\<close> of
  \<^verbatim>\<open>data[i]\<close> with \<open>i\<close> out of range throws a \<^verbatim>\<open>TypeError\<close>; the first such reads
  are those of \<^verbatim>\<open>data[startIdx]\<close> and \<^verbatim>\<open>data[endIdx]\<close>. On an empty \<open>data\<close> the
  source's \<open>data.length - 1\<close> is \<open>-1\<close> and the read of \<^verbatim>\<open>data[startIdx]\<close> throws; here
  \<open>length data - 1\<close> is \<open>0\<close> then, and the same read is out of range.
\<close>

definition updateSummaryCards :: "sim_point list \<Rightarrow> nat \<Rightarrow> nat option \<Rightarrow> js_error + summary" where
  "updateSummaryCards data startIdx endIdx0 =
     (let endIdx = (case endIdx0 of
                      None \<Rightarrow> length data - 1
                    | Some e \<Rightarrow> if e = 0 then length data - 1 else e)
      in if startIdx \<ge> length data \<or> endIdx \<ge> length data then Inl TypeError
         else
           (let startTime = pt_time (data ! startIdx);
                endTime = pt_time (data ! endIdx);
                totalTime = endTime - startTime;
                startDist = pt_distance (data ! startIdx);
                endDist = pt_distance (data ! endIdx);
                totalDistance = endDist - startDist;
                avgSpeed = (if totalTime > 0 then (totalDistance / totalTime) * 3.6 else 0);
                totalPower = rangePowerLoop data (startIdx + 1) endIdx 0;
                avgPower = (if totalTime > 0 then totalPower / totalTime else 0)
            in Inr \<lparr> s_totalTime = totalTime,
                     s_totalDistance = totalDistance,
                     s_avgSpeed = avgSpeed,
                     s_avgPower = avgPower \<rparr>))"

section \<open>Properties of the SpeedSolver\<close>

text \<open>
  With \<open>sin (arctan x) = x / sqrt (1 + x\<^sup>2)\<close> and \<open>cos (arctan x) = 1 / sqrt (1 + x\<^sup>2)\<close>
  the power is a cubic in the speed: \<open>A * v + B * v ^ 3\<close>, where the sign of \<open>A\<close> is the
  sign of \<open>grade + Crr\<close> and \<open>B\<close> is positive.
\<close>

lemma calculatePowerNeeded_closed:
  "calculatePowerNeeded v grade mass CdA =
     (mass * g_gravity * (grade + Crr) / sqrt (1 + grade\<^sup>2) + 0.5 * rho * CdA * v\<^sup>2) * v"
proof -
  have F: "mass * g_gravity * sin (arctan grade) + mass * g_gravity * cos (arctan grade) * Crr
        = mass * g_gravity * (grade + Crr) / sqrt (1 + grade\<^sup>2)"
    by (simp add: sin_arctan cos_arctan algebra_simps add_divide_distrib)
  have "calculatePowerNeeded v grade mass CdA =
        (mass * g_gravity * sin (arctan grade) + mass * g_gravity * cos (arctan grade) * Crr
          + 0.5 * rho * CdA * v\<^sup>2) * v"
    by (simp add: calculatePowerNeeded_def Let_def power2_eq_square)
  then show ?thesis by (simp only: F)
qed

lemma power_cubic:
  "calculatePowerNeeded v grade mass CdA =
     (mass * g_gravity * (grade + Crr) / sqrt (1 + grade\<^sup>2)) * v + (0.5 * rho * CdA) * v ^ 3"
  by (simp add: calculatePowerNeeded_closed power2_eq_square power3_eq_cube algebra_simps)

lemma sqrt_grade_pos: "0 < sqrt (1 + (grade::real)\<^sup>2)"
  by (simp add: add_pos_nonneg)

text \<open>The loop keeps the bracket inside the one it started from.\<close>

lemma bisect_bounds:
  "bisect grade mass CdA Pmax lo hi n = (lo', hi', n') \<Longrightarrow> lo \<le> hi \<Longrightarrow>
     lo \<le> lo' \<and> lo' \<le> hi' \<and> hi' \<le> hi"
proof (induction grade mass CdA Pmax lo hi n rule: bisect.induct)
  case (1 grade mass CdA Pmax vMin vMax iterations)
  show ?case
  proof (cases "vMax - vMin > tolerance \<and> iterations < maxIterations")
    case False
    with "1.prems" show ?thesis by (simp add: bisect.simps)
  next
    case run: True
    let ?mid = "(vMin + vMax) / 2"
    from "1.prems"(2) have mid: "vMin \<le> ?mid" "?mid \<le> vMax" by simp_all
    show ?thesis
    proof (cases "calculatePowerNeeded ?mid grade mass CdA < Pmax")
      case True
      with run "1.prems"(1) have "bisect grade mass CdA Pmax ?mid vMax (iterations + 1) = (lo', hi', n')"
        by (simp add: bisect.simps [of _ _ _ _ vMin vMax] Let_def)
      from "1.IH"(1) [OF run refl refl True this mid(2)] mid show ?thesis by linarith
    next
      case False
      with run "1.prems"(1) have "bisect grade mass CdA Pmax vMin ?mid (iterations + 1) = (lo', hi', n')"
        by (simp add: bisect.simps [of _ _ _ _ vMin vMax] Let_def)
      from "1.IH"(2) [OF run refl refl False this mid(1)] mid show ?thesis by linarith
    qed
  qed
qed

text \<open>
  The counter never passes the cap, and the loop is left only with a bracket of width at
  most \<open>tolerance\<close> or with the counter at the cap.
\<close>

lemma bisect_exit:
  "bisect grade mass CdA Pmax lo hi n = (lo', hi', n') \<Longrightarrow>
     n \<le> n' \<and> (n \<le> maxIterations \<longrightarrow> n' \<le> maxIterations) \<and>
     (hi' - lo' \<le> tolerance \<or> maxIterations \<le> n')"
proof (induction grade mass CdA Pmax lo hi n rule: bisect.induct)
  case (1 grade mass CdA Pmax vMin vMax iterations)
  show ?case
  proof (cases "vMax - vMin > tolerance \<and> iterations < maxIterations")
    case False
    with "1.prems" show ?thesis by (auto simp add: bisect.simps)
  next
    case run: True
    let ?mid = "(vMin + vMax) / 2"
    show ?thesis
    proof (cases "calculatePowerNeeded ?mid grade mass CdA < Pmax")
      case True
      with run "1.prems"(1) have "bisect grade mass CdA Pmax ?mid vMax (iterations + 1) = (lo', hi', n')"
        by (simp add: bisect.simps [of _ _ _ _ vMin vMax] Let_def)
      from "1.IH"(1) [OF run refl refl True this] run show ?thesis by auto
    next
      case False
      with run "1.prems"(1) have "bisect grade mass CdA Pmax vMin ?mid (iterations + 1) = (lo', hi', n')"
        by (simp add: bisect.simps [of _ _ _ _ vMin vMax] Let_def)
      from "1.IH"(2) [OF run refl refl False this] run show ?thesis by auto
    qed
  qed
qed

lemma bisect_no_run:
  "hi - lo \<le> tolerance \<Longrightarrow> bisect grade mass CdA Pmax lo hi n = (lo, hi, n)"
  by (simp add: bisect.simps)

lemma calculateSpeed_pos:
  assumes "0 < Vmax_ms"
  shows "0 < calculateSpeed grade mass CdA Pmax Vmax_ms"
proof (cases "0.1 \<le> Vmax_ms")
  case True
  obtain lo hi n where b: "bisect grade mass CdA Pmax 0.1 Vmax_ms 0 = (lo, hi, n)"
    by (cases "bisect grade mass CdA Pmax 0.1 Vmax_ms 0") auto
  from bisect_bounds [OF b True] have "0 < (lo + hi) / 2" by simp
  with assms b show ?thesis by (simp add: calculateSpeed_def)
next
  case small: False
  then have "bisect grade mass CdA Pmax 0.1 Vmax_ms 0 = (0.1, Vmax_ms, 0)"
    by (intro bisect_no_run) (simp add: tolerance_def)
  with assms show ?thesis by (simp add: calculateSpeed_def)
qed

text \<open>
  Claim C1, as amended. The claim reads: for every grade, of any sign, and all
  \<open>mass > 0\<close>, \<open>CdA > 0\<close>, \<open>calculatePowerNeeded\<close> is strictly increasing in the speed
  over all speeds \<open>v \<ge> 0\<close>. That fails on a descent steeper than the rolling
  resistance. What holds: for \<open>mass > 0\<close> and \<open>CdA > 0\<close>, \<open>calculatePowerNeeded\<close> is
  strictly increasing in the speed over all speeds \<open>v \<ge> 0\<close> exactly when
  \<open>grade \<ge> - Crr\<close>, that is \<open>grade \<ge> -0.004\<close>.
\<close>

theorem powerNeeded_increasing_iff:
  assumes "0 < mass" and "0 < CdA"
  shows "(\<forall>v1 v2. 0 \<le> v1 \<and> v1 < v2 \<longrightarrow>
            calculatePowerNeeded v1 grade mass CdA < calculatePowerNeeded v2 grade mass CdA)
         \<longleftrightarrow> - Crr \<le> grade"
proof
  define A where "A = mass * g_gravity * (grade + Crr) / sqrt (1 + grade\<^sup>2)"
  define B where "B = 0.5 * rho * CdA"
  have B: "0 < B" using assms by (simp add: B_def rho_def)
  have P: "calculatePowerNeeded v grade mass CdA = A * v + B * v ^ 3" for v
    by (simp add: power_cubic A_def B_def)
  {
    assume g: "- Crr \<le> grade"
    have A: "0 \<le> A" using assms g sqrt_grade_pos [of grade]
      by (simp add: A_def g_gravity_def)
    show "\<forall>v1 v2. 0 \<le> v1 \<and> v1 < v2 \<longrightarrow>
            calculatePowerNeeded v1 grade mass CdA < calculatePowerNeeded v2 grade mass CdA"
    proof (intro allI impI)
      fix v1 v2 :: real assume v: "0 \<le> v1 \<and> v1 < v2"
      then have "v1 ^ 3 < v2 ^ 3" by (simp add: power_strict_mono)
      with B have "B * v1 ^ 3 < B * v2 ^ 3" by simp
      moreover from A v have "A * v1 \<le> A * v2" by (simp add: mult_left_mono)
      ultimately show "calculatePowerNeeded v1 grade mass CdA < calculatePowerNeeded v2 grade mass CdA"
        by (simp add: P)
    qed
  }
  {
    assume inc: "\<forall>v1 v2. 0 \<le> v1 \<and> v1 < v2 \<longrightarrow>
            calculatePowerNeeded v1 grade mass CdA < calculatePowerNeeded v2 grade mass CdA"
    show "- Crr \<le> grade"
    proof (rule ccontr)
      assume "\<not> - Crr \<le> grade"
      then have "grade + Crr < 0" by simp
      with assms sqrt_grade_pos [of grade] have A: "A < 0"
        by (simp add: A_def g_gravity_def divide_neg_pos mult_pos_neg)
      define v where "v = sqrt (- A / (2 * B))"
      from A B have q: "0 < (- A) / (2 * B)" by (intro divide_pos_pos) simp_all
      then have v: "0 < v" unfolding v_def by (simp only: real_sqrt_gt_zero)
      from q have v2: "v\<^sup>2 = - A / (2 * B)" unfolding v_def by simp
      have "A * v + B * v ^ 3 = v * (A + B * v\<^sup>2)"
        by (simp add: power2_eq_square power3_eq_cube algebra_simps)
      also have "A + B * v\<^sup>2 = A / 2" using B by (simp add: v2)
      finally have eq: "A * v + B * v ^ 3 = v * (A / 2)" .
      from v A have "v * (A / 2) < 0" by (simp add: mult_pos_neg)
      then have "A * v + B * v ^ 3 < 0" by (simp only: eq)
      then have "calculatePowerNeeded v grade mass CdA < 0" by (simp only: P)
      moreover have "calculatePowerNeeded 0 grade mass CdA = 0" by (simp add: P)
      moreover from inc v have "calculatePowerNeeded 0 grade mass CdA < calculatePowerNeeded v grade mass CdA"
        by simp
      ultimately show False by simp
    qed
  }
qed

text \<open>A flat road: the power at 2 m/s exceeds the power at 1 m/s.\<close>

theorem powerNeeded_increasing_iff_witness:
  "(0::real) < 80 \<and> (0::real) < 0.3 \<and> - Crr \<le> 0 \<and> (0::real) \<le> 1 \<and> (1::real) < 2 \<and>
   calculatePowerNeeded 1 0 80 0.3 < calculatePowerNeeded 2 0 80 0.3"
proof -
  have m: "(0::real) < 80" and c: "(0::real) < 0.3" by simp_all
  have h: "- Crr \<le> 0" by (simp add: Crr_def)
  from iffD2 [OF powerNeeded_increasing_iff [OF m c] h]
  have "calculatePowerNeeded 1 0 80 0.3 < calculatePowerNeeded 2 0 80 0.3" by simp
  with h show ?thesis by simp
qed

text \<open>
  Claim C1 as stated fails: on the grade \<open>-3/4\<close>, with 80 kg and a drag area of 0.3,
  standing still needs the power 0 and rolling at 1 m/s needs a negative power.
\<close>

theorem powerNeeded_decreasing_example:
  "(0::real) < 80 \<and> (0::real) < 0.3 \<and> (0::real) \<le> 0 \<and> (0::real) < 1 \<and>
   \<not> calculatePowerNeeded 0 (- 3 / 4) 80 0.3 < calculatePowerNeeded 1 (- 3 / 4) 80 0.3"
proof -
  have s: "sqrt (1 + (3 / 4 :: real)\<^sup>2) = 5 / 4"
    by (rule real_sqrt_unique) (simp_all add: power2_eq_square)
  show ?thesis
    by (simp add: calculatePowerNeeded_closed g_gravity_def Crr_def rho_def s)
qed

text \<open>
  Claim C2, as amended. The claim reads: for \<open>maxSpeedMs > 0\<close> the value of
  \<open>calculateSpeed\<close> lies in \<open>[0.1, maxSpeedMs]\<close>; that interval is empty for a maximal
  speed below 0.1 m/s. What holds: for every grade, mass, drag area and maximal power,
  and every \<open>Vmax_ms \<ge> 0.1\<close>, the value of \<open>calculateSpeed\<close> lies in
  \<open>[0.1, Vmax_ms]\<close>.
\<close>

theorem calculateSpeed_in_bracket:
  assumes "0.1 \<le> Vmax_ms"
  shows "0.1 \<le> calculateSpeed grade mass CdA Pmax Vmax_ms \<and>
         calculateSpeed grade mass CdA Pmax Vmax_ms \<le> Vmax_ms"
proof (cases "calculatePowerNeeded Vmax_ms grade mass CdA \<le> Pmax")
  case True
  with assms show ?thesis by (simp add: calculateSpeed_def)
next
  case False
  obtain lo hi n where b: "bisect grade mass CdA Pmax 0.1 Vmax_ms 0 = (lo, hi, n)"
    by (cases "bisect grade mass CdA Pmax 0.1 Vmax_ms 0") auto
  from bisect_bounds [OF b assms] have "0.1 \<le> (lo + hi) / 2" "(lo + hi) / 2 \<le> Vmax_ms"
    by simp_all
  with False b show ?thesis by (simp add: calculateSpeed_def)
qed

text \<open>The flat road at 40 km/h, that is \<open>100 / 9\<close> m/s.\<close>

theorem calculateSpeed_in_bracket_witness:
  "(0.1::real) \<le> 100 / 9 \<and> 0.1 \<le> calculateSpeed 0 80 0.3 250 (100 / 9) \<and>
   calculateSpeed 0 80 0.3 250 (100 / 9) \<le> 100 / 9"
proof -
  have h: "(0.1::real) \<le> 100 / 9" by simp
  from h calculateSpeed_in_bracket [OF h, of 0 80 "0.3" 250] show ?thesis by simp
qed

text \<open>
  Claim C2 as stated fails: with a maximal speed of 0.05 m/s the rider reaches it, and
  0.05 is below 0.1.
\<close>

theorem calculateSpeed_below_floor:
  "(0::real) < 80 \<and> (0::real) < 0.3 \<and> (0::real) < 250 \<and> (0::real) < 0.05 \<and>
   \<not> (0.1 \<le> calculateSpeed 0 80 0.3 250 0.05 \<and> calculateSpeed 0 80 0.3 250 0.05 \<le> 0.05)"
  by (simp add: calculateSpeed_def calculatePowerNeeded_def g_gravity_def Crr_def rho_def)

text \<open>
  Claim C3: whenever the power needed at \<open>Vmax_ms\<close> is at most \<open>Pmax\<close>,
  \<open>calculateSpeed\<close> returns exactly \<open>Vmax_ms\<close>.
\<close>

theorem calculateSpeed_at_Vmax:
  "calculatePowerNeeded Vmax_ms grade mass CdA \<le> Pmax \<Longrightarrow>
     calculateSpeed grade mass CdA Pmax Vmax_ms = Vmax_ms"
  by (simp add: calculateSpeed_def)

text \<open>On the flat, 300 W are enough for 10 m/s.\<close>

theorem calculateSpeed_at_Vmax_witness:
  "calculatePowerNeeded 10 0 80 0.3 \<le> 300 \<and> calculateSpeed 0 80 0.3 300 10 = 10"
proof -
  have h: "calculatePowerNeeded 10 0 80 0.3 \<le> 300"
    by (simp add: calculatePowerNeeded_def g_gravity_def Crr_def rho_def)
  from h calculateSpeed_at_Vmax [OF h] show ?thesis by simp
qed

text \<open>
  Claim C9: the loop of \<open>calculateSpeed\<close> ends (\<open>bisect\<close> is a total function, its
  measure is the distance of the counter from the cap), it ends after at most 100 passes,
  with a bracket of width at most 0.001 or with the counter at 100, and in both cases
  \<open>calculateSpeed\<close>, once it has entered the search, returns the midpoint of that final
  bracket.
\<close>

theorem calculateSpeed_loop_bounded:
  "\<exists>vMin vMax iterations.
      bisect grade mass CdA Pmax 0.1 Vmax_ms 0 = (vMin, vMax, iterations) \<and>
      iterations \<le> 100 \<and>
      (vMax - vMin \<le> 0.001 \<or> iterations = 100) \<and>
      (Pmax < calculatePowerNeeded Vmax_ms grade mass CdA \<longrightarrow>
         calculateSpeed grade mass CdA Pmax Vmax_ms = (vMin + vMax) / 2)"
proof -
  obtain lo hi n where b: "bisect grade mass CdA Pmax 0.1 Vmax_ms 0 = (lo, hi, n)"
    by (cases "bisect grade mass CdA Pmax 0.1 Vmax_ms 0") auto
  from bisect_exit [OF b] have "n \<le> 100" "hi - lo \<le> 0.001 \<or> n = 100"
    by (auto simp add: maxIterations_def tolerance_def)
  moreover have "Pmax < calculatePowerNeeded Vmax_ms grade mass CdA \<longrightarrow>
         calculateSpeed grade mass CdA Pmax Vmax_ms = (lo + hi) / 2"
    using b by (simp add: calculateSpeed_def)
  ultimately show ?thesis using b by blast
qed

text \<open>The flat road with 250 W and 40 km/h: the rider is power-limited, the search runs.\<close>

theorem calculateSpeed_loop_bounded_witness:
  "250 < calculatePowerNeeded (100 / 9) 0 80 0.3 \<and>
   (\<exists>vMin vMax iterations.
      bisect 0 80 0.3 250 0.1 (100 / 9) 0 = (vMin, vMax, iterations) \<and>
      iterations \<le> 100 \<and>
      (vMax - vMin \<le> 0.001 \<or> iterations = 100) \<and>
      calculateSpeed 0 80 0.3 250 (100 / 9) = (vMin + vMax) / 2)"
proof -
  have h: "250 < calculatePowerNeeded (100 / 9) 0 80 0.3"
    by (simp add: calculatePowerNeeded_def g_gravity_def Crr_def rho_def)
  from calculateSpeed_loop_bounded [of 0 80 "0.3" 250 "100 / 9"] h show ?thesis by blast
qed

text \<open>
  Claim C10: for every grade, mass, drag area and maximal power, and every
  \<open>Vmax_ms > 0\<close>, \<open>calculateSpeed\<close> returns a strictly positive speed, so the division
  \<open>segment.distance / speed_ms\<close> of the simulation has a non-zero divisor and a finite
  result.
\<close>

theorem calculateSpeed_positive:
  assumes "0 < Vmax_ms"
  shows "0 < calculateSpeed grade mass CdA Pmax Vmax_ms \<and>
         js_div distance (calculateSpeed grade mass CdA Pmax Vmax_ms) =
           Some (distance / calculateSpeed grade mass CdA Pmax Vmax_ms)"
  using calculateSpeed_pos [OF assms, of grade mass CdA Pmax] by (simp add: js_div_def)

text \<open>A segment of 1000 m on the flat at 40 km/h.\<close>

theorem calculateSpeed_positive_witness:
  "(0::real) < 100 / 9 \<and> 0 < calculateSpeed 0 80 0.3 250 (100 / 9) \<and>
   js_div 1000 (calculateSpeed 0 80 0.3 250 (100 / 9)) =
     Some (1000 / calculateSpeed 0 80 0.3 250 (100 / 9))"
proof -
  have h: "(0::real) < 100 / 9" by simp
  from h calculateSpeed_positive [OF h, of 0 80 "0.3" 250 1000] show ?thesis by simp
qed

text \<open>
  The spec's flat scenario (80 kg, drag area 0.3, 250 W, 40 km/h, that is \<open>100 / 9\<close> m/s),
  computed: the search makes 14 passes and ends with a bracket around 10.567 m/s.
\<close>

lemma calculatePowerNeeded_flat:
  "calculatePowerNeeded v 0 80 0.3 = (3924 / 1250 + 147 / 800 * v * v) * v"
  by (simp add: calculatePowerNeeded_def g_gravity_def Crr_def rho_def algebra_simps)

lemma bisect_flat_example:
  "bisect 0 80 0.3 250 0.1 (100 / 9) 0 = (1558129 / 147456, 15582281 / 1474560, 14)"
  by (simp add: bisect.simps calculatePowerNeeded_flat tolerance_def maxIterations_def Let_def)

lemma calculateSpeed_flat_example:
  "calculateSpeed 0 80 0.3 250 (100 / 9) = 3462619 / 327680"
  by (simp add: calculateSpeed_def bisect_flat_example calculatePowerNeeded_flat)

section \<open>Properties of GeoDistance and the SegmentBuilder\<close>

text \<open>
  The two arguments \<open>a\<close> and \<open>1 - a\<close> of \<open>Math.sqrt\<close> in \<^verbatim>\<open>calculateDistance\<close>
  are never negative, whatever the coordinates: \<open>a\<close> is a mean of
  \<open>sin\<^sup>2 ((\<phi>\<^sub>2 - \<phi>\<^sub>1) / 2)\<close> and \<open>(1 + cos (\<phi>\<^sub>1 + \<phi>\<^sub>2)) / 2\<close>, weighted with
  \<open>sin\<^sup>2 (\<Delta>\<lambda> / 2)\<close>. The third \<open>Math.sqrt\<close> of the source, in
  \<^verbatim>\<open>calculateSegmentData\<close>, is of a sum of two squares. So over the reals \<open>sqrt\<close> is
  only used where \<open>Math.sqrt\<close> is a real number.

  This is a fact of the reals only. On antipodal points \<open>a\<close> is exactly 1, and the
  source's doubles can round it above 1: from \<open>(-12, -180)\<close> to \<open>(12, 0)\<close> they give
  \<open>a = 1.0000000000000002\<close>, so \<open>Math.sqrt(1 - a)\<close> and with it the distance are
  \<open>NaN\<close>. The model has no such case. Where a statement below computes a distance, it
  does so on identical coordinates, where the doubles give \<open>a = 0\<close> and the distance 0
  exactly as the reals do.
\<close>

lemma sin_square_range: "0 \<le> sin (x::real) * sin x \<and> sin x * sin x \<le> 1"
proof -
  have "(sin x)\<^sup>2 \<le> 1" by (simp add: abs_square_le_1)
  then show ?thesis by (simp add: power2_eq_square)
qed

lemma haversine_range:
  fixes phi1 phi2 dlambda :: real
  defines "a \<equiv> sin ((phi2 - phi1) / 2) * sin ((phi2 - phi1) / 2) +
              cos phi1 * cos phi2 * sin (dlambda / 2) * sin (dlambda / 2)"
  shows "0 \<le> a \<and> a \<le> 1"
proof -
  define s where "s = sin (dlambda / 2) * sin (dlambda / 2)"
  define h where "h = sin ((phi2 - phi1) / 2) * sin ((phi2 - phi1) / 2)"
  define k where "k = (1 + cos (phi1 + phi2)) / 2"
  have s: "0 \<le> s" "s \<le> 1"
    using sin_square_range [of "dlambda / 2"] by (simp_all add: s_def)
  have h: "0 \<le> h" "h \<le> 1"
    using sin_square_range [of "(phi2 - phi1) / 2"] by (simp_all add: h_def)
  have k: "0 \<le> k" "k \<le> 1"
  proof -
    show "0 \<le> k" unfolding k_def using cos_ge_minus_one [of "phi1 + phi2"] by argo
    show "k \<le> 1" unfolding k_def using cos_le_one [of "phi1 + phi2"] by argo
  qed
  have d: "2 * ((phi2 - phi1) / 2) = phi2 - phi1" by simp
  have "cos (phi2 - phi1) = 1 - 2 * h"
    using cos_double_sin [of "(phi2 - phi1) / 2"] unfolding d h_def power2_eq_square .
  then have hk: "h + cos phi1 * cos phi2 = k"
    by (simp add: k_def cos_add cos_diff algebra_simps)
  have "a = h + cos phi1 * cos phi2 * s"
    by (simp add: a_def h_def s_def algebra_simps)
  also have "\<dots> = (1 - s) * h + s * k"
    unfolding hk [symmetric] by (simp add: algebra_simps)
  finally have a: "a = (1 - s) * h + s * k" .
  from s h k have "0 \<le> (1 - s) * h" "0 \<le> s * k" by simp_all
  moreover from s h have "(1 - s) * h \<le> 1 - s" using mult_left_mono [of h 1 "1 - s"] by simp
  moreover from s k have "s * k \<le> s" using mult_left_mono [of k 1 s] by simp
  ultimately have "0 \<le> (1 - s) * h + s * k" "(1 - s) * h + s * k \<le> 1" by linarith+
  then show ?thesis unfolding a by simp
qed

lemma calculateDistance_sqrt_arguments:
  fixes lat1 lon1 lat2 lon2 :: real
  defines "a \<equiv> sin ((lat2 - lat1) * pi / 180 / 2) * sin ((lat2 - lat1) * pi / 180 / 2) +
              cos (lat1 * pi / 180) * cos (lat2 * pi / 180) *
              sin ((lon2 - lon1) * pi / 180 / 2) * sin ((lon2 - lon1) * pi / 180 / 2)"
  shows "0 \<le> a \<and> 0 \<le> 1 - a"
proof -
  have e: "(lat2 - lat1) * pi / 180 = lat2 * pi / 180 - lat1 * pi / 180"
    by (simp add: algebra_simps diff_divide_distrib)
  from haversine_range [of "lat2 * pi / 180" "lat1 * pi / 180" "(lon2 - lon1) * pi / 180"]
  show ?thesis unfolding a_def e by argo
qed

lemma calculateDistance_same: "calculateDistance la lo la lo = 0"
  by (simp add: calculateDistance_def js_atan2_def)

lemma segmentOf_stacked:
  assumes "lat p1 = lat p2" and "lon p1 = lon p2"
  shows "seg_grade (segmentOf t p1 p2) = 0"
    and "seg_distance (segmentOf t p1 p2) = \<bar>ele p2 - ele p1\<bar>"
  using assms by (simp_all add: segmentOf_def calculateDistance_same Let_def)

lemma length_segmentLoop: "length (segmentLoop t p ps) = length ps"
  by (induction ps arbitrary: t p) (simp_all add: Let_def)

lemma segmentLoop_nth:
  "i < length ps \<Longrightarrow> \<exists>t'. segmentLoop t p ps ! i = segmentOf t' ((p # ps) ! i) (ps ! i)"
proof (induction ps arbitrary: t p i)
  case Nil
  then show ?case by simp
next
  case (Cons q qs)
  show ?case
  proof (cases i)
    case 0
    then show ?thesis by (auto simp add: Let_def)
  next
    case (Suc j)
    with Cons.prems have "j < length qs" by simp
    from Cons.IH [OF this, of "seg_cumulativeDistance (segmentOf t p q)" q] Suc
    show ?thesis by (simp add: Let_def)
  qed
qed

lemma length_calculateSegmentData:
  "length (calculateSegmentData points) = length points - 1"
  by (simp add: calculateSegmentData_def length_segmentLoop split: list.split)

lemma calculateSegmentData_nth:
  assumes "Suc i < length points"
  shows "\<exists>t. calculateSegmentData points ! i = segmentOf t (points ! i) (points ! Suc i)"
proof (cases points)
  case Nil
  with assms show ?thesis by simp
next
  case (Cons p ps)
  with assms have "i < length ps" by simp
  from segmentLoop_nth [OF this, of 0 p] Cons show ?thesis
    by (simp add: calculateSegmentData_def)
qed

text \<open>
  Claim C8: for every two consecutive track points with the same latitude and the same
  longitude, the segment built for them has the grade 0 and, as its distance, the
  absolute value of the difference of the two elevations.
\<close>

theorem stacked_points_segment:
  assumes "Suc i < length points"
    and "lat (points ! Suc i) = lat (points ! i)"
    and "lon (points ! Suc i) = lon (points ! i)"
  shows "seg_grade (calculateSegmentData points ! i) = 0 \<and>
         seg_distance (calculateSegmentData points ! i) =
           \<bar>ele (points ! Suc i) - ele (points ! i)\<bar>"
proof -
  from calculateSegmentData_nth [OF assms(1)] obtain t where
    "calculateSegmentData points ! i = segmentOf t (points ! i) (points ! Suc i)" ..
  with segmentOf_stacked [of "points ! i" "points ! Suc i" t] assms(2,3)
  show ?thesis by simp
qed

text \<open>A route of three points, the last two stacked 10 m apart in height.\<close>

theorem stacked_points_segment_witness:
  "seg_grade (calculateSegmentData
      [\<lparr>lat = 45, lon = 7, ele = 100\<rparr>, \<lparr>lat = 46, lon = 8, ele = 130\<rparr>,
       \<lparr>lat = 46, lon = 8, ele = 120\<rparr>] ! 1) = 0 \<and>
   seg_distance (calculateSegmentData
      [\<lparr>lat = 45, lon = 7, ele = 100\<rparr>, \<lparr>lat = 46, lon = 8, ele = 130\<rparr>,
       \<lparr>lat = 46, lon = 8, ele = 120\<rparr>] ! 1) = 10"
  using stacked_points_segment [of 1
      "[\<lparr>lat = 45, lon = 7, ele = 100\<rparr>, \<lparr>lat = 46, lon = 8, ele = 130\<rparr>,
        \<lparr>lat = 46, lon = 8, ele = 120\<rparr>]"]
  by simp

section \<open>Properties of the RouteSimulator\<close>

lemma simulateSegment_Some:
  assumes "0 < Vmax_ms"
  shows "\<exists>st'. simulateSegment mass CdA Pmax Vmax_ms seg st = Some st'"
  using calculateSpeed_pos [OF assms, of "seg_grade seg" mass CdA Pmax]
  by (simp add: simulateSegment_def js_div_def Let_def)

lemma simulateSegment_point:
  assumes "simulateSegment mass CdA Pmax Vmax_ms seg st = Some st'"
  shows "\<exists>pt. simulationData st' = simulationData st @ [pt] \<and>
           pt_distance pt = seg_cumulativeDistance seg \<and>
           pt_power pt =
             (let speed_ms = calculateSpeed (seg_grade seg) mass CdA Pmax Vmax_ms
              in if speed_ms \<ge> Vmax_ms - 0.01
                 then max 0 (calculatePowerNeeded speed_ms (seg_grade seg) mass CdA)
                 else Pmax)"
  using assms
  by (auto simp add: simulateSegment_def js_div_def Let_def split: if_splits)

lemma simulateLoop_distance:
  assumes "simulateLoop mass CdA Pmax Vmax_ms segs st = Some st'"
  shows "map pt_distance (simulationData st') =
           map pt_distance (simulationData st) @ map seg_cumulativeDistance segs"
  using assms
proof (induction segs arbitrary: st)
  case Nil
  then show ?case by simp
next
  case (Cons seg segs)
  from Cons.prems obtain st1 where
    s1: "simulateSegment mass CdA Pmax Vmax_ms seg st = Some st1" and
    l1: "simulateLoop mass CdA Pmax Vmax_ms segs st1 = Some st'"
    by (auto split: option.splits)
  from simulateSegment_point [OF s1] have
    "map pt_distance (simulationData st1) =
       map pt_distance (simulationData st) @ [seg_cumulativeDistance seg]"
    by auto
  with Cons.IH [OF l1] show ?case by simp
qed

lemma simulateLoop_power:
  assumes "simulateLoop mass CdA Pmax Vmax_ms segs st = Some st'"
  shows "map pt_power (simulationData st') =
           map pt_power (simulationData st) @
           map (\<lambda>seg. let speed_ms = calculateSpeed (seg_grade seg) mass CdA Pmax Vmax_ms
                       in if speed_ms \<ge> Vmax_ms - 0.01
                          then max 0 (calculatePowerNeeded speed_ms (seg_grade seg) mass CdA)
                          else Pmax) segs"
  using assms
proof (induction segs arbitrary: st)
  case Nil
  then show ?case by simp
next
  case (Cons seg segs)
  from Cons.prems obtain st1 where
    s1: "simulateSegment mass CdA Pmax Vmax_ms seg st = Some st1" and
    l1: "simulateLoop mass CdA Pmax Vmax_ms segs st1 = Some st'"
    by (auto split: option.splits)
  from simulateSegment_point [OF s1] have
    "map pt_power (simulationData st1) =
       map pt_power (simulationData st) @
       [let speed_ms = calculateSpeed (seg_grade seg) mass CdA Pmax Vmax_ms
        in if speed_ms \<ge> Vmax_ms - 0.01
           then max 0 (calculatePowerNeeded speed_ms (seg_grade seg) mass CdA)
           else Pmax]"
    by auto
  with Cons.IH [OF l1] show ?case by simp
qed

lemma simulateLoop_Some:
  assumes "0 < Vmax_ms"
  shows "\<exists>st'. simulateLoop mass CdA Pmax Vmax_ms segs st = Some st'"
proof (induction segs arbitrary: st)
  case Nil
  show ?case by simp
next
  case (Cons seg segs)
  from simulateSegment_Some [OF assms, of mass CdA Pmax seg st] obtain st1 where
    "simulateSegment mass CdA Pmax Vmax_ms seg st = Some st1" ..
  with Cons.IH [of st1] show ?case by simp
qed

text \<open>What a run that reaches \<^verbatim>\<open>displayResults\<close> has computed.\<close>

lemma runSimulation_Inr:
  assumes "runSimulation (Some points) mass CdA Pmax Vmax_kmh = Inr res"
  shows "\<exists>st. calculateSegmentData points \<noteq> [] \<and>
     simulateLoop mass CdA Pmax (Vmax_kmh / 3.6) (calculateSegmentData points)
       (initialState points) = Some st \<and>
     r_data res = simulationData st \<and>
     r_totalTime res = totalTime st \<and>
     r_totalDistance res = seg_cumulativeDistance (last (calculateSegmentData points)) \<and>
     r_avgSpeed res = map_option (\<lambda>q. q * 3.6)
        (js_div (seg_cumulativeDistance (last (calculateSegmentData points))) (totalTime st)) \<and>
     r_avgPower res = js_div (routePowerLoop (simulationData st) 1 0) (totalTime st)"
  using assms
  by (auto simp add: runSimulation_def Let_def last_conv_nth split: if_splits option.splits)

lemma runSimulation_succeeds:
  assumes "2 \<le> length points" and "0 < Vmax_kmh"
  shows "\<exists>res. runSimulation (Some points) mass CdA Pmax Vmax_kmh = Inr res"
proof -
  from assms(1) have "length (calculateSegmentData points) \<noteq> 0"
    by (simp add: length_calculateSegmentData)
  moreover from assms(2) have "0 < Vmax_kmh / 3.6" by simp
  from simulateLoop_Some [OF this] obtain st where
    "simulateLoop mass CdA Pmax (Vmax_kmh / 3.6) (calculateSegmentData points)
       (initialState points) = Some st" ..
  ultimately show ?thesis
    by (simp add: runSimulation_def Let_def)
qed

text \<open>
  Claim C4: for every segment \<open>i\<close> of a simulated route, the power recorded in the
  simulation point \<open>i + 1\<close> is \<open>max 0 (calculatePowerNeeded speed_ms grade mass CdA)\<close>
  if the solved speed \<open>speed_ms\<close> is at least \<open>Vmax_ms - 0.01\<close>, and \<open>Pmax\<close>
  otherwise.
\<close>

theorem recorded_power:
  assumes "runSimulation (Some points) mass CdA Pmax Vmax_kmh = Inr res"
    and "i < length (calculateSegmentData points)"
  shows "pt_power (r_data res ! Suc i) =
           (let segment = calculateSegmentData points ! i;
                Vmax_ms = Vmax_kmh / 3.6;
                speed_ms = calculateSpeed (seg_grade segment) mass CdA Pmax Vmax_ms
            in if speed_ms \<ge> Vmax_ms - 0.01
               then max 0 (calculatePowerNeeded speed_ms (seg_grade segment) mass CdA)
               else Pmax)"
proof -
  let ?segs = "calculateSegmentData points"
  let ?rec = "\<lambda>seg. let speed_ms = calculateSpeed (seg_grade seg) mass CdA Pmax (Vmax_kmh / 3.6)
                     in if speed_ms \<ge> Vmax_kmh / 3.6 - 0.01
                        then max 0 (calculatePowerNeeded speed_ms (seg_grade seg) mass CdA)
                        else Pmax"
  from runSimulation_Inr [OF assms(1)] obtain st where
    loop: "simulateLoop mass CdA Pmax (Vmax_kmh / 3.6) ?segs (initialState points) = Some st"
    and data: "r_data res = simulationData st"
    by blast
  from simulateLoop_power [OF loop] data
  have powers: "map pt_power (r_data res) = 0 # map ?rec ?segs"
    by (simp add: initialState_def)
  then have "length (map pt_power (r_data res)) = Suc (length ?segs)" by simp
  with assms(2) have "Suc i < length (r_data res)" by simp
  then have "pt_power (r_data res ! Suc i) = map pt_power (r_data res) ! Suc i" by simp
  also from assms(2) have "\<dots> = ?rec (?segs ! i)" by (simp only: powers nth_Cons_Suc nth_map)
  finally show ?thesis by (simp add: Let_def)
qed

text \<open>
  Two stacked points, so a segment of grade 0. With 300 W and 36 km/h the rider holds
  10 m/s and the power needed for it is recorded; with 250 W and 40 km/h the solved speed
  is about 10.567 m/s, more than 0.01 below \<open>100 / 9\<close>, and 250 W are recorded.
\<close>

theorem recorded_power_witness:
  "(\<exists>res. runSimulation (Some [\<lparr>lat = 45, lon = 7, ele = 100\<rparr>, \<lparr>lat = 45, lon = 7, ele = 130\<rparr>])
             80 0.3 300 36 = Inr res \<and>
         pt_power (r_data res ! Suc 0) = 107571 / 500) \<and>
   (\<exists>res. runSimulation (Some [\<lparr>lat = 45, lon = 7, ele = 100\<rparr>, \<lparr>lat = 45, lon = 7, ele = 130\<rparr>])
             80 0.3 250 40 = Inr res \<and>
         pt_power (r_data res ! Suc 0) = 250)"
proof -
  let ?points = "[\<lparr>lat = 45, lon = 7, ele = 100\<rparr>, \<lparr>lat = 45, lon = 7, ele = 130\<rparr>]"
  have l: "2 \<le> length ?points" by simp
  have i: "0 < length (calculateSegmentData ?points)"
    by (simp add: length_calculateSegmentData)
  have g: "seg_grade (calculateSegmentData ?points ! 0) = 0"
    by (simp add: calculateSegmentData_def Let_def segmentOf_stacked)
  have "(0::real) < 36" by simp
  from runSimulation_succeeds [OF l this, of 80 "0.3" 300] obtain res1 where
    res1: "runSimulation (Some ?points) 80 0.3 300 36 = Inr res1" ..
  have p: "calculatePowerNeeded 10 0 80 0.3 = 107571 / 500"
    by (simp add: calculatePowerNeeded_flat)
  from recorded_power [OF res1 i] have "pt_power (r_data res1 ! Suc 0) = 107571 / 500"
    by (simp add: g p calculateSpeed_def Let_def)
  with res1 have first: "\<exists>res. runSimulation (Some ?points) 80 0.3 300 36 = Inr res \<and>
         pt_power (r_data res ! Suc 0) = 107571 / 500"
    by blast
  have "(0::real) < 40" by simp
  from runSimulation_succeeds [OF l this, of 80 "0.3" 250] obtain res2 where
    res2: "runSimulation (Some ?points) 80 0.3 250 40 = Inr res2" ..
  from recorded_power [OF res2 i] have "pt_power (r_data res2 ! Suc 0) = 250"
    by (simp add: g calculateSpeed_flat_example Let_def)
  with res2 have "\<exists>res. runSimulation (Some ?points) 80 0.3 250 40 = Inr res \<and>
         pt_power (r_data res ! Suc 0) = 250"
    by blast
  with first show ?thesis by (rule conjI)
qed

text \<open>
  On segments whose distances are not negative, and with a maximal speed above 0, the main
  loop keeps the times and the elevation gains of the points pushed so far sorted and
  below the running \<open>totalTime\<close> and \<open>cumulativeElevationGain\<close>; the distances of the
  points pushed are the cumulative distances of the segments (\<open>simulateLoop_distance\<close>).
\<close>

lemma simulateSegment_monotone:
  assumes step: "simulateSegment mass CdA Pmax Vmax_ms seg st = Some st'"
    and V: "0 < Vmax_ms" and d: "0 \<le> seg_distance seg"
    and inv: "sorted (map pt_time (simulationData st))"
      "\<forall>pt \<in> set (simulationData st). pt_time pt \<le> totalTime st"
      "sorted (map pt_elevationGain (simulationData st))"
      "\<forall>pt \<in> set (simulationData st). pt_elevationGain pt \<le> cumulativeElevationGain st"
  shows "sorted (map pt_time (simulationData st'))"
    and "\<forall>pt \<in> set (simulationData st'). pt_time pt \<le> totalTime st'"
    and "sorted (map pt_elevationGain (simulationData st'))"
    and "\<forall>pt \<in> set (simulationData st'). pt_elevationGain pt \<le> cumulativeElevationGain st'"
proof -
  let ?v = "calculateSpeed (seg_grade seg) mass CdA Pmax Vmax_ms"
  have v: "0 < ?v" by (rule calculateSpeed_pos [OF V])
  with d have t: "0 \<le> seg_distance seg / ?v" by simp
  from step v have T: "totalTime st' = totalTime st + seg_distance seg / ?v"
    by (auto simp add: simulateSegment_def js_div_def Let_def)
  from step v have G: "cumulativeElevationGain st \<le> cumulativeElevationGain st'"
    by (auto simp add: simulateSegment_def js_div_def Let_def)
  from step v obtain pt where pt: "simulationData st' = simulationData st @ [pt]"
    "pt_time pt = totalTime st'" "pt_elevationGain pt = cumulativeElevationGain st'"
    by (auto simp add: simulateSegment_def js_div_def Let_def)
  from inv(2) t T have le_t: "\<forall>q \<in> set (simulationData st). pt_time q \<le> totalTime st'"
    by fastforce
  from inv(4) G have le_g:
    "\<forall>q \<in> set (simulationData st). pt_elevationGain q \<le> cumulativeElevationGain st'"
    by fastforce
  from inv(1) le_t pt show "sorted (map pt_time (simulationData st'))"
    by (simp add: sorted_append)
  from le_t pt show "\<forall>pt \<in> set (simulationData st'). pt_time pt \<le> totalTime st'"
    by simp
  from inv(3) le_g pt show "sorted (map pt_elevationGain (simulationData st'))"
    by (simp add: sorted_append)
  from le_g pt show
    "\<forall>pt \<in> set (simulationData st'). pt_elevationGain pt \<le> cumulativeElevationGain st'"
    by simp
qed

lemma simulateLoop_monotone:
  assumes "simulateLoop mass CdA Pmax Vmax_ms segs st = Some st'"
    and "0 < Vmax_ms" and "\<forall>s \<in> set segs. 0 \<le> seg_distance s"
    and "sorted (map pt_time (simulationData st))"
      "\<forall>pt \<in> set (simulationData st). pt_time pt \<le> totalTime st"
      "sorted (map pt_elevationGain (simulationData st))"
      "\<forall>pt \<in> set (simulationData st). pt_elevationGain pt \<le> cumulativeElevationGain st"
  shows "sorted (map pt_time (simulationData st')) \<and>
         sorted (map pt_elevationGain (simulationData st'))"
  using assms
proof (induction segs arbitrary: st)
  case Nil
  then show ?case by simp
next
  case (Cons seg segs)
  from Cons.prems(1) obtain st1 where
    s1: "simulateSegment mass CdA Pmax Vmax_ms seg st = Some st1" and
    l1: "simulateLoop mass CdA Pmax Vmax_ms segs st1 = Some st'"
    by (auto split: option.splits)
  from Cons.prems(3) have d: "0 \<le> seg_distance seg" "\<forall>s \<in> set segs. 0 \<le> seg_distance s"
    by simp_all
  note m = simulateSegment_monotone [OF s1 Cons.prems(2) d(1) Cons.prems(4-7)]
  from Cons.IH [OF l1 Cons.prems(2) d(2) m] show ?case .
qed

text \<open>
  For a whole route this needs every segment distance to be a number that is not
  negative. Over the reals it is one; in the source's doubles the distance of a segment
  between antipodal points can be \<open>NaN\<close> (see the section on GeoDistance), and then the
  cumulative distance and the time of that simulation point and of all later ones are
  \<open>NaN\<close> too. So the order of the fields is stated for the loop, on segments whose
  distances are numbers, and not for \<^verbatim>\<open>runSimulation\<close> on every route.
\<close>

section \<open>Properties of the RangeAggregator\<close>

text \<open>Both loops add up \<open>power[k] * (time[k] - time[k - 1])\<close> over their indices.\<close>

lemma rangePowerLoop_sum:
  "rangePowerLoop data i endIdx totalPower =
     totalPower + (\<Sum>k = i..endIdx. pt_power (data ! k) * (pt_time (data ! k) - pt_time (data ! (k - 1))))"
proof (induction data i endIdx totalPower rule: rangePowerLoop.induct)
  case (1 data i endIdx totalPower)
  show ?case
  proof (cases "i \<le> endIdx")
    case True
    with "1.IH" [OF True refl] show ?thesis
      by (simp add: rangePowerLoop.simps [of data i] Let_def sum.atLeast_Suc_atMost)
  next
    case False
    then show ?thesis by (simp add: rangePowerLoop.simps [of data i])
  qed
qed

lemma routePowerLoop_sum:
  "routePowerLoop simData i totalPower =
     totalPower + (\<Sum>k = i..<length simData.
        pt_power (simData ! k) * (pt_time (simData ! k) - pt_time (simData ! (k - 1))))"
proof (induction simData i totalPower rule: routePowerLoop.induct)
  case (1 simData i totalPower)
  show ?case
  proof (cases "i < length simData")
    case True
    with "1.IH" [OF True refl] show ?thesis
      by (simp add: routePowerLoop.simps [of simData i] Let_def sum.atLeast_Suc_lessThan)
  next
    case False
    then show ?thesis by (simp add: routePowerLoop.simps [of simData i])
  qed
qed

lemma routePowerLoop_rangePowerLoop:
  assumes "data \<noteq> []"
  shows "routePowerLoop data i totalPower = rangePowerLoop data i (length data - 1) totalPower"
proof -
  from assms have "{i..<length data} = {i..length data - 1}" by (cases data) auto
  then show ?thesis by (simp add: routePowerLoop_sum rangePowerLoop_sum)
qed




lemma updateSummaryCards_default:
  "updateSummaryCards data 0 (Some (length data - 1)) = updateSummaryCards data 0 None"
  by (simp add: updateSummaryCards_def)

text \<open>
  On a route that takes time, the totals of \<^verbatim>\<open>updateSummaryCards\<close> over the full range
  are the totals that \<^verbatim>\<open>runSimulation\<close> has computed.
\<close>

lemma simulateLoop_last_time:
  assumes "simulateLoop mass CdA Pmax Vmax_ms segs st = Some st'"
    and "simulationData st \<noteq> []"
    and "pt_time (last (simulationData st)) = totalTime st"
  shows "(\<exists>new. simulationData st' = simulationData st @ new) \<and>
         pt_time (last (simulationData st')) = totalTime st'"
  using assms
proof (induction segs arbitrary: st)
  case Nil
  then show ?case by simp
next
  case (Cons seg segs)
  from Cons.prems(1) obtain st1 where
    s1: "simulateSegment mass CdA Pmax Vmax_ms seg st = Some st1" and
    l1: "simulateLoop mass CdA Pmax Vmax_ms segs st1 = Some st'"
    by (auto split: option.splits)
  from s1 obtain pt where pt: "simulationData st1 = simulationData st @ [pt]"
    "pt_time pt = totalTime st1"
    by (auto simp add: simulateSegment_def js_div_def Let_def split: if_splits)
  then have "simulationData st1 \<noteq> []" "pt_time (last (simulationData st1)) = totalTime st1"
    by simp_all
  from Cons.IH [OF l1 this] pt(1) show ?case by auto
qed

lemma full_range_totals:
  assumes run: "runSimulation (Some points) mass CdA Pmax Vmax_kmh = Inr res"
    and pos: "0 < r_totalTime res"
  shows "\<exists>s. updateSummaryCards (r_data res) 0 None = Inr s \<and>
           s_totalTime s = r_totalTime res \<and>
           s_totalDistance s = r_totalDistance res \<and>
           r_avgSpeed res = Some (s_avgSpeed s) \<and>
           r_avgPower res = Some (s_avgPower s)"
proof -
  let ?segs = "calculateSegmentData points"
  let ?data = "r_data res"
  from runSimulation_Inr [OF run] obtain st where
    segs: "?segs \<noteq> []"
    and loop: "simulateLoop mass CdA Pmax (Vmax_kmh / 3.6) ?segs (initialState points) = Some st"
    and data: "?data = simulationData st"
    and T: "r_totalTime res = totalTime st"
    and D: "r_totalDistance res = seg_cumulativeDistance (last ?segs)"
    and S: "r_avgSpeed res = map_option (\<lambda>q. q * 3.6)
        (js_div (seg_cumulativeDistance (last ?segs)) (totalTime st))"
    and P: "r_avgPower res = js_div (routePowerLoop (simulationData st) 1 0) (totalTime st)"
    by blast
  from simulateLoop_last_time [OF loop] data obtain new where
    new: "?data = simulationData (initialState points) @ new"
    and last_time: "pt_time (last ?data) = totalTime st"
    by (auto simp add: initialState_def)
  from new have ne: "?data \<noteq> []" and first: "pt_time (?data ! 0) = 0" "pt_distance (?data ! 0) = 0"
    by (simp_all add: initialState_def)
  from simulateLoop_distance [OF loop] data
  have "map pt_distance ?data = 0 # map seg_cumulativeDistance ?segs"
    by (simp add: initialState_def)
  then have "last (map pt_distance ?data) = last (0 # map seg_cumulativeDistance ?segs)"
    by simp
  with ne segs have last_dist: "pt_distance (last ?data) = seg_cumulativeDistance (last ?segs)"
    by (simp add: last_map)
  define e where "e = length ?data - 1"
  from ne have idx: "?data ! e = last ?data" by (simp add: last_conv_nth e_def)
  from ne have len: "e < length ?data" by (simp add: e_def)
  from pos T have nz: "0 < totalTime st" by simp
  from ne have "routePowerLoop ?data 1 0 = rangePowerLoop ?data 1 e 0"
    unfolding e_def by (rule routePowerLoop_rangePowerLoop)
  with data have loops: "routePowerLoop (simulationData st) 1 0 = rangePowerLoop ?data 1 e 0"
    by simp
  have "updateSummaryCards ?data 0 None =
     Inr \<lparr> s_totalTime = pt_time (?data ! e) - pt_time (?data ! 0),
           s_totalDistance = pt_distance (?data ! e) - pt_distance (?data ! 0),
           s_avgSpeed =
             (if pt_time (?data ! e) - pt_time (?data ! 0) > 0
              then (pt_distance (?data ! e) - pt_distance (?data ! 0)) /
                   (pt_time (?data ! e) - pt_time (?data ! 0)) * 3.6
              else 0),
           s_avgPower =
             (if pt_time (?data ! e) - pt_time (?data ! 0) > 0
              then rangePowerLoop ?data (0 + 1) e 0 / (pt_time (?data ! e) - pt_time (?data ! 0))
              else 0) \<rparr>"
  proof -
    from ne have "0 < length ?data" by simp
    then have "\<not> length ?data \<le> length ?data - 1" by linarith
    with ne show ?thesis unfolding e_def by (simp add: updateSummaryCards_def Let_def)
  qed
  then have agg: "updateSummaryCards ?data 0 None =
     Inr \<lparr> s_totalTime = totalTime st,
           s_totalDistance = seg_cumulativeDistance (last ?segs),
           s_avgSpeed = seg_cumulativeDistance (last ?segs) / totalTime st * 3.6,
           s_avgPower = rangePowerLoop ?data 1 e 0 / totalTime st \<rparr>"
    using nz by (simp add: idx first last_time last_dist)
  from nz loops show ?thesis
    by (simp add: agg T D S P js_div_def)
qed

text \<open>
  Claim C5 says that for every route of at least two points the totals of the full range
  are those of \<^verbatim>\<open>runSimulation\<close>. On a route of two identical points (no distance,
  no time) \<^verbatim>\<open>runSimulation\<close> divides by the total time 0 without a test, and its
  average speed and power are not numbers, whereas \<^verbatim>\<open>updateSummaryCards\<close> tests
  \<^verbatim>\<open>totalTime > 0\<close> and yields 0 for both.
\<close>

theorem runSimulation_standstill:
  "runSimulation (Some [\<lparr>lat = 45, lon = 7, ele = 100\<rparr>, \<lparr>lat = 45, lon = 7, ele = 100\<rparr>])
     80 0.3 250 40 =
   Inr \<lparr> r_data =
           [\<lparr> pt_distance = 0, pt_elevation = 100, pt_speed = 0, pt_power = 0, pt_time = 0,
              pt_grade = 0, pt_lat = None, pt_lon = None, pt_elevationGain = 0 \<rparr>,
            \<lparr> pt_distance = 0, pt_elevation = 100, pt_speed = 31163571 / 819200,
              pt_power = 250, pt_time = 0, pt_grade = 0, pt_lat = Some 45, pt_lon = Some 7,
              pt_elevationGain = 0 \<rparr>],
         r_totalTime = 0, r_totalDistance = 0, r_avgSpeed = None, r_avgPower = None \<rparr> \<and>
   updateSummaryCards
     [\<lparr> pt_distance = 0, pt_elevation = 100, pt_speed = 0, pt_power = 0, pt_time = 0,
        pt_grade = 0, pt_lat = None, pt_lon = None, pt_elevationGain = 0 \<rparr>,
      \<lparr> pt_distance = 0, pt_elevation = 100, pt_speed = 31163571 / 819200,
        pt_power = 250, pt_time = 0, pt_grade = 0, pt_lat = Some 45, pt_lon = Some 7,
        pt_elevationGain = 0 \<rparr>] 0 None =
   Inr \<lparr> s_totalTime = 0, s_totalDistance = 0, s_avgSpeed = 0, s_avgPower = 0 \<rparr>"
proof -
  have seg: "calculateSegmentData [\<lparr>lat = 45, lon = 7, ele = 100\<rparr>, \<lparr>lat = 45, lon = 7, ele = 100\<rparr>]
     = [\<lparr> seg_distance = 0, seg_grade = 0, seg_elevation = 100, seg_cumulativeDistance = 0,
          seg_lat = 45, seg_lon = 7 \<rparr>]"
    by (simp add: calculateSegmentData_def segmentOf_def calculateDistance_same Let_def)
  have run: "runSimulation (Some [\<lparr>lat = 45, lon = 7, ele = 100\<rparr>, \<lparr>lat = 45, lon = 7, ele = 100\<rparr>])
     80 0.3 250 40 =
   Inr \<lparr> r_data =
           [\<lparr> pt_distance = 0, pt_elevation = 100, pt_speed = 0, pt_power = 0, pt_time = 0,
              pt_grade = 0, pt_lat = None, pt_lon = None, pt_elevationGain = 0 \<rparr>,
            \<lparr> pt_distance = 0, pt_elevation = 100, pt_speed = 31163571 / 819200,
              pt_power = 250, pt_time = 0, pt_grade = 0, pt_lat = Some 45, pt_lon = Some 7,
              pt_elevationGain = 0 \<rparr>],
         r_totalTime = 0, r_totalDistance = 0, r_avgSpeed = None, r_avgPower = None \<rparr>"
    by (simp add: runSimulation_def seg initialState_def simulateSegment_def
          calculateSpeed_flat_example js_div_def Let_def)
  have agg: "updateSummaryCards
     [\<lparr> pt_distance = 0, pt_elevation = 100, pt_speed = 0, pt_power = 0, pt_time = 0,
        pt_grade = 0, pt_lat = None, pt_lon = None, pt_elevationGain = 0 \<rparr>,
      \<lparr> pt_distance = 0, pt_elevation = 100, pt_speed = 31163571 / 819200,
        pt_power = 250, pt_time = 0, pt_grade = 0, pt_lat = Some 45, pt_lon = Some 7,
        pt_elevationGain = 0 \<rparr>] 0 None =
   Inr \<lparr> s_totalTime = 0, s_totalDistance = 0, s_avgSpeed = 0, s_avgPower = 0 \<rparr>"
    by (simp add: updateSummaryCards_def Let_def)
  from run agg show ?thesis by (rule conjI)
qed

end
